theory Spec2Isabelle
  imports Main
begin

section \<open>Pyrlang gen: decoding of gen:call envelopes and the two reply shapes\<close>

text \<open>
  A shallow embedding of \<^verbatim>\<open>Pyrlang/gen.py\<close>: the two decoders
  \<^verbatim>\<open>parse_gen_call\<close> and \<^verbatim>\<open>parse_gen_message\<close>, the descriptor classes
  \<^verbatim>\<open>GenBase\<close>, \<^verbatim>\<open>GenIncomingMessage\<close> and \<^verbatim>\<open>GenIncomingCall\<close>, and the
  reply operations \<^verbatim>\<open>reply\<close> and \<^verbatim>\<open>reply_exit\<close>.
  Python exceptions are values: every function that can raise returns \<open>exn + 'a\<close>,
  with \<open>Inl\<close> the exception. A decoder returns either a \<^verbatim>\<open>str\<close> or a descriptor
  object, so its normal result is \<open>string + descriptor\<close>.
\<close>

subsection \<open>Values\<close>

text \<open>
  Modelled from the spec: the \<^verbatim>\<open>Term\<close> package is not part of the shown source, so
  its classes are taken from their use in \<^verbatim>\<open>gen.py\<close> and from the value model of the
  specification: \<open>Atom\<close> is the symbolic literal with its text (\<^verbatim>\<open>text_\<close>),
  \<open>TermList\<close> the compound term exposing its element list (\<^verbatim>\<open>elements_\<close>),
  \<open>Pid\<close> a process identifier with its node affiliation (\<^verbatim>\<open>node_\<close>) and an id,
  \<open>Reference\<close> an opaque reference. Instances of these classes are neither sized nor
  iterable. The other constructors are Python's own values: tuples, native lists,
  integers, strings and \<^verbatim>\<open>None\<close>. Together they are the decoded Erlang terms the
  functions receive.
\<close>

datatype val =
    Atom string
  | Tuple "val list"
  | PyList "val list"
  | TermList "val list"
  | Pid val nat
  | Reference nat
  | PyInt int
  | PyStr string
  | NoneV

datatype exn = IndexError | ValueError | TypeError | KeyError | AttributeError

text \<open>\<^verbatim>\<open>isinstance(v, Term.Atom)\<close> and \<^verbatim>\<open>isinstance(v, list)\<close>.\<close>

fun isinstance_Atom :: "val \<Rightarrow> bool" where
  "isinstance_Atom (Atom t) = True"
| "isinstance_Atom v = False"

fun isinstance_list :: "val \<Rightarrow> bool" where
  "isinstance_list (PyList xs) = True"
| "isinstance_list v = False"

text \<open>Attribute reads: \<^verbatim>\<open>v.text_\<close>, \<^verbatim>\<open>v.node_\<close>, \<^verbatim>\<open>v.elements_\<close>.\<close>

fun attr_text :: "val \<Rightarrow> exn + string" where
  "attr_text (Atom t) = Inr t"
| "attr_text v = Inl AttributeError"

fun attr_node :: "val \<Rightarrow> exn + val" where
  "attr_node (Pid n k) = Inr n"
| "attr_node v = Inl AttributeError"

fun attr_elements :: "val \<Rightarrow> exn + val" where
  "attr_elements (TermList xs) = Inr (PyList xs)"
| "attr_elements v = Inl AttributeError"

text \<open>\<^verbatim>\<open>len(v)\<close>: defined on tuples, lists and strings, \<^verbatim>\<open>TypeError\<close> elsewhere.\<close>

fun py_len :: "val \<Rightarrow> exn + nat" where
  "py_len (Tuple xs) = Inr (length xs)"
| "py_len (PyList xs) = Inr (length xs)"
| "py_len (PyStr s) = Inr (length s)"
| "py_len v = Inl TypeError"

text \<open>
  Iteration, as tuple unpacking uses it: the elements of a tuple or list, the
  one-character strings of a string, \<^verbatim>\<open>TypeError\<close> on a value that is not iterable.
\<close>

fun py_iter :: "val \<Rightarrow> exn + val list" where
  "py_iter (Tuple xs) = Inr xs"
| "py_iter (PyList xs) = Inr xs"
| "py_iter (PyStr s) = Inr (map (\<lambda>c. PyStr [c]) s)"
| "py_iter v = Inl TypeError"

text \<open>
  \<^verbatim>\<open>(a, b) = v\<close>, \<^verbatim>\<open>(a, b, c) = v\<close> and \<^verbatim>\<open>(a, b, c, d, e) = v\<close>:
  \<^verbatim>\<open>ValueError\<close> when the number of elements differs.
\<close>

definition unpack2 :: "val \<Rightarrow> exn + (val \<times> val)" where
  "unpack2 v =
     (case py_iter v of
        Inl e \<Rightarrow> Inl e
      | Inr xs \<Rightarrow> (case xs of [a, b] \<Rightarrow> Inr (a, b) | _ \<Rightarrow> Inl ValueError))"

definition unpack3 :: "val \<Rightarrow> exn + (val \<times> val \<times> val)" where
  "unpack3 v =
     (case py_iter v of
        Inl e \<Rightarrow> Inl e
      | Inr xs \<Rightarrow> (case xs of [a, b, c] \<Rightarrow> Inr (a, b, c) | _ \<Rightarrow> Inl ValueError))"

definition unpack5 :: "val \<Rightarrow> exn + (val \<times> val \<times> val \<times> val \<times> val)" where
  "unpack5 v =
     (case py_iter v of
        Inl e \<Rightarrow> Inl e
      | Inr xs \<Rightarrow>
          (case xs of [a, b, c, d, e] \<Rightarrow> Inr (a, b, c, d, e) | _ \<Rightarrow> Inl ValueError))"

text \<open>\<^verbatim>\<open>msg[0]\<close> on the elements of a tuple: \<^verbatim>\<open>IndexError\<close> when there is none.\<close>

definition index0 :: "val list \<Rightarrow> exn + val" where
  "index0 xs = (case xs of [] \<Rightarrow> Inl IndexError | x # _ \<Rightarrow> Inr x)"

text \<open>
  \<^verbatim>\<open>isinstance(x, Term.Atom) and x.text_ == '$gen_call'\<close>; the decoders reject on its
  negation, \<^verbatim>\<open>not isinstance(x, Term.Atom) or x.text_ != '$gen_call'\<close>, where the
  text is read only of an atom.
\<close>

fun is_gen_call_tag :: "val \<Rightarrow> bool" where
  "is_gen_call_tag (Atom t) = (t = ''$gen_call'')"
| "is_gen_call_tag v = False"

subsection \<open>Descriptors\<close>

text \<open>
  The fields keep the source's names, with the trailing underscore written as a prime
  (\<^verbatim>\<open>sender_\<close> is \<open>sender'\<close>).
\<close>

record GenBase =
  node_name' :: string
  sender' :: val
  ref' :: val

record GenIncomingMessage = GenBase +
  message' :: val

record GenIncomingCall = GenBase +
  mod' :: val
  fun' :: val
  args' :: val
  group_leader' :: val

text \<open>
  The constructors. \<^verbatim>\<open>node_name\<close> is a required parameter of both: a call that does
  not pass it (\<open>None\<close> here) raises \<^verbatim>\<open>TypeError\<close> before the body runs.
\<close>

definition GenIncomingMessage_init ::
  "val \<Rightarrow> val \<Rightarrow> val \<Rightarrow> string option \<Rightarrow> exn + GenIncomingMessage" where
  "GenIncomingMessage_init sender ref message node_name =
     (case node_name of
        None \<Rightarrow> Inl TypeError
      | Some nn \<Rightarrow>
          Inr \<lparr>node_name' = nn, sender' = sender, ref' = ref, message' = message\<rparr>)"

definition GenIncomingCall_init ::
  "val \<Rightarrow> val \<Rightarrow> val \<Rightarrow> val \<Rightarrow> val \<Rightarrow> val \<Rightarrow> string option \<Rightarrow> exn + GenIncomingCall" where
  "GenIncomingCall_init m f args group_leader sender ref node_name =
     (case node_name of
        None \<Rightarrow> Inl TypeError
      | Some nn \<Rightarrow>
          Inr \<lparr>node_name' = nn, sender' = sender, ref' = ref,
               mod' = m, fun' = f, args' = args, group_leader' = group_leader\<rparr>)"

text \<open>\<^verbatim>\<open>GenIncomingCall.get_args\<close>.\<close>

definition get_args :: "GenIncomingCall \<Rightarrow> exn + val" where
  "get_args self =
     (if isinstance_list (args' self) then Inr (args' self)
      else attr_elements (args' self))"

subsection \<open>Decoders\<close>

text \<open>
  \<^verbatim>\<open>parse_gen_call(msg)\<close>. The rendering \<^verbatim>\<open>str(m)\<close> of an arbitrary value belongs
  to the value model and is the parameter \<open>str\<close>. The function has no
  \<^verbatim>\<open>node_name\<close> to hand to the constructor, and passes none.
\<close>

definition parse_gen_call :: "(val \<Rightarrow> string) \<Rightarrow> val \<Rightarrow> exn + (string + GenIncomingCall)" where
  "parse_gen_call str msg =
     (case msg of
        Tuple elems \<Rightarrow>
          (case index0 elems of
             Inl e \<Rightarrow> Inl e
           | Inr tag \<Rightarrow>
               if \<not> is_gen_call_tag tag
               then Inr (Inl ''Only {$gen_call, _, _} messages allowed'')
               else
                 (case unpack3 msg of
                    Inl e \<Rightarrow> Inl e
                  | Inr (u, sender_mref, call_mfa_gl) \<Rightarrow>
                      (case unpack2 sender_mref of
                         Inl e \<Rightarrow> Inl e
                       | Inr (msender, mref) \<Rightarrow>
                           (case py_len call_mfa_gl of
                              Inl e \<Rightarrow> Inl e
                            | Inr n \<Rightarrow>
                                if n \<noteq> 5
                                then Inr (Inl ''Expecting a 5-tuple (with a 'call' atom)'')
                                else
                                  (case unpack5 call_mfa_gl of
                                     Inl e \<Rightarrow> Inl e
                                   | Inr (call, m, f, args, group_leader) \<Rightarrow>
                                       if \<not> isinstance_Atom m
                                       then Inr (Inl (''Module must be an atom: '' @ str m))
                                       else if \<not> isinstance_Atom f
                                       then Inr (Inl (''Function must be an atom: '' @ str f))
                                       else
                                         (case GenIncomingCall_init m f args group_leader
                                                 msender mref None of
                                            Inl e \<Rightarrow> Inl e
                                          | Inr c \<Rightarrow> Inr (Inr c)))))))
      | _ \<Rightarrow> Inr (Inl ''Only {tuple} messages allowed''))"

text \<open>\<^verbatim>\<open>parse_gen_message(msg, node_name)\<close>.\<close>

definition parse_gen_message :: "val \<Rightarrow> string \<Rightarrow> exn + (string + GenIncomingMessage)" where
  "parse_gen_message msg node_name =
     (case msg of
        Tuple elems \<Rightarrow>
          (case index0 elems of
             Inl e \<Rightarrow> Inl e
           | Inr tag \<Rightarrow>
               if \<not> is_gen_call_tag tag
               then Inr (Inl ''Only {$gen_call, _, _} messages allowed'')
               else
                 (case unpack3 msg of
                    Inl e \<Rightarrow> Inl e
                  | Inr (u, sender_mref, gcmsg) \<Rightarrow>
                      (case unpack2 sender_mref of
                         Inl e \<Rightarrow> Inl e
                       | Inr (msender, mref) \<Rightarrow>
                           (case GenIncomingMessage_init msender mref gcmsg (Some node_name) of
                              Inl e \<Rightarrow> Inl e
                            | Inr d \<Rightarrow> Inr (Inr d)))))
      | _ \<Rightarrow> Inr (Inl ''Only {tuple} messages allowed''))"

subsection \<open>The routing layer and the replies\<close>

text \<open>
  Modelled from the spec: \<^verbatim>\<open>Pyrlang.node\<close> is not part of the shown source. Its
  registry \<^verbatim>\<open>Node.all_nodes\<close> is a dictionary from node names to nodes, and each node
  is represented by the requests handed to it, oldest first: a delivery request
  \<^verbatim>\<open>send(sender, receiver, message)\<close> or a node-level directive
  \<^verbatim>\<open>dist_command(receiver_node, message)\<close>.
\<close>

datatype request =
    Send val val val
  | DistCommand string val

type_synonym all_nodes = "string \<rightharpoonup> request list"

text \<open>\<^verbatim>\<open>Node.all_nodes[name]\<close>: \<^verbatim>\<open>KeyError\<close> on a name that is not registered.\<close>

definition lookup_node :: "all_nodes \<Rightarrow> string \<Rightarrow> exn + request list" where
  "lookup_node nodes name = (case nodes name of None \<Rightarrow> Inl KeyError | Some n \<Rightarrow> Inr n)"

text \<open>
  \<^verbatim>\<open>GenBase.reply(self, local_pid, result)\<close>: the registry before, and the outcome with
  the registry after.
\<close>

definition reply ::
  "'a GenBase_scheme \<Rightarrow> val \<Rightarrow> val \<Rightarrow> all_nodes \<Rightarrow> (exn + unit) \<times> all_nodes" where
  "reply self local_pid result nodes =
     (case lookup_node nodes (node_name' self) of
        Inl e \<Rightarrow> (Inl e, nodes)
      | Inr n \<Rightarrow>
          (Inr (),
           nodes(node_name' self \<mapsto>
                   n @ [Send local_pid (sender' self) (Tuple [ref' self, result])])))"

text \<open>
  \<^verbatim>\<open>GenBase.reply_exit(self, local_pid, reason)\<close>. The marker is a Python string.
  The node is looked up before \<^verbatim>\<open>self.sender_.node_.text_\<close> is read.
\<close>

definition reply_exit ::
  "'a GenBase_scheme \<Rightarrow> val \<Rightarrow> val \<Rightarrow> all_nodes \<Rightarrow> (exn + unit) \<times> all_nodes" where
  "reply_exit self local_pid reason nodes =
     (let reply_msg = Tuple [PyStr ''monitor_p_exit'', local_pid, sender' self, ref' self, reason]
      in case lookup_node nodes (node_name' self) of
           Inl e \<Rightarrow> (Inl e, nodes)
         | Inr n \<Rightarrow>
             (case attr_node (sender' self) of
                Inl e \<Rightarrow> (Inl e, nodes)
              | Inr nd \<Rightarrow>
                  (case attr_text nd of
                     Inl e \<Rightarrow> (Inl e, nodes)
                   | Inr receiver_node \<Rightarrow>
                       (Inr (),
                        nodes(node_name' self \<mapsto>
                                n @ [DistCommand receiver_node reply_msg])))))"

section \<open>Properties\<close>

subsection \<open>Shape lemmas\<close>

lemma is_gen_call_tag_iff: "is_gen_call_tag x \<longleftrightarrow> x = Atom ''$gen_call''"
  by (cases x) auto

lemma py_iter_len: "py_iter v = Inr xs \<Longrightarrow> py_len v = Inr (length xs)"
  by (cases v) auto

lemma unpack5_iter: "unpack5 v = Inr (c, m, f, a, g) \<Longrightarrow> py_iter v = Inr [c, m, f, a, g]"
  by (auto simp: unpack5_def split: sum.splits list.splits)

lemma unpack5_len: "unpack5 v = Inr p \<Longrightarrow> py_len v = Inr 5"
  by (cases p) (auto dest!: unpack5_iter py_iter_len)

lemma unpack3_Tuple: "unpack3 (Tuple [a, b, c]) = Inr (a, b, c)"
  by (simp add: unpack3_def)

text \<open>A generic envelope with the tag and a sender/ref pair is accepted, whatever the body.\<close>

lemma parse_gen_message_accepts:
  assumes "unpack2 sr = Inr (S, R)"
  shows "parse_gen_message (Tuple [Atom ''$gen_call'', sr, body]) nn
           = Inr (Inr \<lparr>node_name' = nn, sender' = S, ref' = R, message' = body\<rparr>)"
  using assms
  by (simp add: parse_gen_message_def index0_def unpack3_Tuple GenIncomingMessage_init_def)

text \<open>A sized body of a length other than 5 gets the arity rejection.\<close>

lemma parse_gen_call_arity_mismatch:
  assumes "unpack2 sr = Inr (S, R)" and "py_len body = Inr n" and "n \<noteq> 5"
  shows "parse_gen_call str (Tuple [Atom ''$gen_call'', sr, body])
           = Inr (Inl ''Expecting a 5-tuple (with a 'call' atom)'')"
  using assms by (simp add: parse_gen_call_def index0_def unpack3_Tuple)

text \<open>
  A body of five elements with an atom for the module and for the function passes every
  check, and the constructor call that follows raises: it lacks \<^verbatim>\<open>node_name\<close>.
\<close>

lemma parse_gen_call_checks_passed_raises:
  assumes "unpack2 sr = Inr (S, R)" and "unpack5 body = Inr (c, Atom m, Atom f, a, g)"
  shows "parse_gen_call str (Tuple [Atom ''$gen_call'', sr, body]) = Inl TypeError"
  using assms unpack5_len [OF assms(2)]
  by (simp add: parse_gen_call_def index0_def unpack3_Tuple GenIncomingCall_init_def)

text \<open>Hence \<^verbatim>\<open>parse_gen_call\<close> returns a descriptor on no input at all.\<close>

lemma parse_gen_call_never_descriptor: "parse_gen_call str msg \<noteq> Inr (Inr d)"
  by (auto simp: parse_gen_call_def GenIncomingCall_init_def
           split: val.splits sum.splits prod.splits if_splits)

lemma reply_registered:
  assumes "nodes (node_name' ctx) = Some log"
  shows "reply ctx lp result nodes
           = (Inr (), nodes(node_name' ctx \<mapsto>
                              log @ [Send lp (sender' ctx) (Tuple [ref' ctx, result])]))"
  using assms by (simp add: reply_def lookup_node_def)

subsection \<open>Decoding a call\<close>

text \<open>
  C1. The claim: on an envelope \<^verbatim>\<open>('$gen_call', (S, R), (c, Mod, Fun, Args, GL))\<close> with atoms
  \<^verbatim>\<open>Mod\<close> and \<^verbatim>\<open>Fun\<close>, \<^verbatim>\<open>parse_gen_call\<close> returns a \<^verbatim>\<open>GenIncomingCall\<close> holding
  S, R, Mod, Fun, Args and GL. The code does not: on the call
  \<^verbatim>\<open>{'$gen_call', {Pid, Ref}, {call, erlang, node, [], GroupLeader}}\<close> every check passes
  and the constructor, called without its required \<^verbatim>\<open>node_name\<close>, raises
  \<^verbatim>\<open>TypeError\<close>.
\<close>

theorem parse_gen_call_call_envelope_raises:
  "parse_gen_call (\<lambda>v. ''?'')
     (Tuple [Atom ''$gen_call'',
             Tuple [Pid (Atom ''erl@host'') 1, Reference 7],
             Tuple [Atom ''call'', Atom ''erlang'', Atom ''node'', PyList [],
                    Pid (Atom ''erl@host'') 2]])
   = Inl TypeError"
  by (simp add: parse_gen_call_def index0_def unpack3_def unpack2_def unpack5_def
                GenIncomingCall_init_def)

text \<open>
  C2. The claim: both decoders return a descriptor or a rejection string on every input
  and never raise. The code raises on the empty tuple (\<^verbatim>\<open>msg[0]\<close> is an
  \<^verbatim>\<open>IndexError\<close>), on a tagged tuple of two or of four elements (the unpacking into three
  names is a \<^verbatim>\<open>ValueError\<close>), and on a tagged 3-tuple whose second element is a pid and
  not a pair (its unpacking is a \<^verbatim>\<open>TypeError\<close>).
\<close>

theorem decoders_raise_on_malformed_shape:
  "parse_gen_call (\<lambda>v. ''?'') (Tuple []) = Inl IndexError
   \<and> parse_gen_message (Tuple []) ''py@host'' = Inl IndexError
   \<and> parse_gen_call (\<lambda>v. ''?'')
        (Tuple [Atom ''$gen_call'', Tuple [Pid (Atom ''erl@host'') 1, Reference 7]])
       = Inl ValueError
   \<and> parse_gen_message
        (Tuple [Atom ''$gen_call'', Tuple [Pid (Atom ''erl@host'') 1, Reference 7]]) ''py@host''
       = Inl ValueError
   \<and> parse_gen_call (\<lambda>v. ''?'')
        (Tuple [Atom ''$gen_call'', Tuple [Pid (Atom ''erl@host'') 1, Reference 7],
                Atom ''is_auth'', Atom ''extra''])
       = Inl ValueError
   \<and> parse_gen_message
        (Tuple [Atom ''$gen_call'', Tuple [Pid (Atom ''erl@host'') 1, Reference 7],
                Atom ''is_auth'', Atom ''extra'']) ''py@host''
       = Inl ValueError
   \<and> parse_gen_call (\<lambda>v. ''?'')
        (Tuple [Atom ''$gen_call'', Pid (Atom ''erl@host'') 1, Atom ''is_auth''])
       = Inl TypeError
   \<and> parse_gen_message
        (Tuple [Atom ''$gen_call'', Pid (Atom ''erl@host'') 1, Atom ''is_auth'']) ''py@host''
       = Inl TypeError"
  by (simp add: parse_gen_call_def parse_gen_message_def index0_def unpack3_def unpack2_def)

text \<open>
  C3. The claim: on \<^verbatim>\<open>('$gen_call', (S, R), payload)\<close> with a payload that is not a
  5-element structure, \<^verbatim>\<open>parse_gen_message\<close> returns the message descriptor with the
  payload verbatim and \<^verbatim>\<open>parse_gen_call\<close> returns the arity rejection. On the payload
  \<^verbatim>\<open>42\<close> the first half holds and the second does not: \<^verbatim>\<open>len(42)\<close> raises
  \<^verbatim>\<open>TypeError\<close>.
\<close>

theorem parse_gen_call_unsized_payload_raises:
  "parse_gen_call (\<lambda>v. ''?'')
     (Tuple [Atom ''$gen_call'', Tuple [Pid (Atom ''erl@host'') 1, Reference 7], PyInt 42])
     = Inl TypeError
   \<and> parse_gen_message
       (Tuple [Atom ''$gen_call'', Tuple [Pid (Atom ''erl@host'') 1, Reference 7], PyInt 42])
       ''py@host''
     = Inr (Inr \<lparr>node_name' = ''py@host'', sender' = Pid (Atom ''erl@host'') 1,
                 ref' = Reference 7, message' = PyInt 42\<rparr>)"
  by (simp add: parse_gen_call_def parse_gen_message_def index0_def unpack3_def unpack2_def
                GenIncomingMessage_init_def)

text \<open>
  C4. Once the envelope has the tag, a sender/ref pair and a body of five elements
  \<^verbatim>\<open>(c, m, f, a, g)\<close>: a module \<^verbatim>\<open>m\<close> that is not an atom gives the rejection
  \<^verbatim>\<open>"Module must be an atom: " + str(m)\<close>, whatever \<^verbatim>\<open>f\<close> is; an atom \<^verbatim>\<open>m\<close> with
  a function \<^verbatim>\<open>f\<close> that is not an atom gives \<^verbatim>\<open>"Function must be an atom: " + str(f)\<close>.
\<close>

theorem parse_gen_call_non_atom_rejected:
  assumes "unpack2 sr = Inr (S, R)" and "unpack5 body = Inr (c, m, f, a, g)"
  shows "(\<not> isinstance_Atom m \<longrightarrow>
            parse_gen_call str (Tuple [Atom ''$gen_call'', sr, body])
              = Inr (Inl (''Module must be an atom: '' @ str m)))
       \<and> (isinstance_Atom m \<and> \<not> isinstance_Atom f \<longrightarrow>
            parse_gen_call str (Tuple [Atom ''$gen_call'', sr, body])
              = Inr (Inl (''Function must be an atom: '' @ str f)))"
  using assms unpack5_len [OF assms(2)]
  by (simp add: parse_gen_call_def index0_def unpack3_Tuple)

theorem parse_gen_call_non_atom_rejected_witness:
  "parse_gen_call (\<lambda>v. case v of PyStr s \<Rightarrow> s | _ \<Rightarrow> ''?'')
     (Tuple [Atom ''$gen_call'', Tuple [Pid (Atom ''erl@host'') 1, Reference 7],
             Tuple [Atom ''call'', PyStr ''erlang'', PyInt 3, PyList [], NoneV]])
     = Inr (Inl ''Module must be an atom: erlang'')
   \<and> parse_gen_call (\<lambda>v. case v of PyStr s \<Rightarrow> s | _ \<Rightarrow> ''?'')
     (Tuple [Atom ''$gen_call'', Tuple [Pid (Atom ''erl@host'') 1, Reference 7],
             Tuple [Atom ''call'', Atom ''erlang'', PyStr ''node'', PyList [], NoneV]])
     = Inr (Inl ''Function must be an atom: node'')"
  using
    parse_gen_call_non_atom_rejected
      [where sr = "Tuple [Pid (Atom ''erl@host'') 1, Reference 7]"
         and S = "Pid (Atom ''erl@host'') 1" and R = "Reference 7"
         and body = "Tuple [Atom ''call'', PyStr ''erlang'', PyInt 3, PyList [], NoneV]"
         and c = "Atom ''call''" and m = "PyStr ''erlang''" and f = "PyInt 3"
         and a = "PyList []" and g = NoneV
         and str = "\<lambda>v. case v of PyStr s \<Rightarrow> s | _ \<Rightarrow> ''?''"]
    parse_gen_call_non_atom_rejected
      [where sr = "Tuple [Pid (Atom ''erl@host'') 1, Reference 7]"
         and S = "Pid (Atom ''erl@host'') 1" and R = "Reference 7"
         and body = "Tuple [Atom ''call'', Atom ''erlang'', PyStr ''node'', PyList [], NoneV]"
         and c = "Atom ''call''" and m = "Atom ''erlang''" and f = "PyStr ''node''"
         and a = "PyList []" and g = NoneV
         and str = "\<lambda>v. case v of PyStr s \<Rightarrow> s | _ \<Rightarrow> ''?''"]
  by (simp add: unpack2_def unpack5_def)

text \<open>
  C8. The first element of the call body is not looked at: two envelopes that differ in it
  alone have the same outcome, be it a rejection string or an exception, for a body that
  is a tuple or a list.
\<close>

theorem parse_gen_call_ignores_call_marker:
  "parse_gen_call str (Tuple [t, sr, Tuple (c1 # rest)])
     = parse_gen_call str (Tuple [t, sr, Tuple (c2 # rest)])
   \<and> parse_gen_call str (Tuple [t, sr, PyList (c1 # rest)])
     = parse_gen_call str (Tuple [t, sr, PyList (c2 # rest)])"
  by (auto simp: parse_gen_call_def index0_def unpack3_Tuple unpack5_def
           split: sum.splits prod.splits list.splits)

subsection \<open>Tag and body of a generic envelope\<close>

text \<open>
  C9. A tuple whose first element is anything but the atom \<^verbatim>\<open>'$gen_call'\<close> is rejected
  by both decoders with the same string, whatever follows the first element.
\<close>

theorem wrong_tag_rejected:
  assumes "x \<noteq> Atom ''$gen_call''"
  shows "parse_gen_call str (Tuple (x # rest))
           = Inr (Inl ''Only {$gen_call, _, _} messages allowed'')
       \<and> parse_gen_message (Tuple (x # rest)) nn
           = Inr (Inl ''Only {$gen_call, _, _} messages allowed'')"
  using assms
  by (simp add: parse_gen_call_def parse_gen_message_def index0_def is_gen_call_tag_iff)

theorem wrong_tag_rejected_witness:
  "Atom ''$gen_cast'' \<noteq> Atom ''$gen_call''
   \<and> parse_gen_call (\<lambda>v. ''?'') (Tuple [Atom ''$gen_cast'', PyInt 1])
       = Inr (Inl ''Only {$gen_call, _, _} messages allowed'')
   \<and> parse_gen_message (Tuple [Atom ''$gen_cast'', PyInt 1]) ''py@host''
       = Inr (Inl ''Only {$gen_call, _, _} messages allowed'')
   \<and> PyStr ''$gen_call'' \<noteq> Atom ''$gen_call''
   \<and> parse_gen_call (\<lambda>v. ''?'') (Tuple [PyStr ''$gen_call''])
       = Inr (Inl ''Only {$gen_call, _, _} messages allowed'')
   \<and> parse_gen_message (Tuple [PyStr ''$gen_call'']) ''py@host''
       = Inr (Inl ''Only {$gen_call, _, _} messages allowed'')"
  using
    wrong_tag_rejected [where x = "Atom ''$gen_cast''" and rest = "[PyInt 1]"
                          and str = "\<lambda>v. ''?''" and nn = "''py@host''"]
    wrong_tag_rejected [where x = "PyStr ''$gen_call''" and rest = "[]"
                          and str = "\<lambda>v. ''?''" and nn = "''py@host''"]
  by simp

text \<open>
  C10. The claim: \<^verbatim>\<open>parse_gen_message\<close> does not look at the body, so an envelope with
  a well-formed call body is accepted by both decoders, which therefore are not mutually
  exclusive. On the call \<^verbatim>\<open>{'$gen_call', {Pid, Ref}, {call, io, format, ["hi"], GL}}\<close>
  the first half holds, \<^verbatim>\<open>parse_gen_message\<close> returning the descriptor with the body as
  received, and the second does not: \<^verbatim>\<open>parse_gen_call\<close> raises \<^verbatim>\<open>TypeError\<close> in the
  constructor call that lacks \<^verbatim>\<open>node_name\<close>, as it does on every envelope that passes
  its checks, so no envelope is accepted by both.
\<close>

theorem call_envelope_accepted_by_generic_decoder_only:
  "parse_gen_message
     (Tuple [Atom ''$gen_call'', Tuple [Pid (Atom ''erl@host'') 4, Reference 9],
             Tuple [Atom ''call'', Atom ''io'', Atom ''format'', PyList [PyStr ''hi''],
                    Pid (Atom ''erl@host'') 5]]) ''py@host''
     = Inr (Inr \<lparr>node_name' = ''py@host'', sender' = Pid (Atom ''erl@host'') 4,
                 ref' = Reference 9,
                 message' = Tuple [Atom ''call'', Atom ''io'', Atom ''format'',
                                   PyList [PyStr ''hi''], Pid (Atom ''erl@host'') 5]\<rparr>)
   \<and> parse_gen_call (\<lambda>v. ''?'')
     (Tuple [Atom ''$gen_call'', Tuple [Pid (Atom ''erl@host'') 4, Reference 9],
             Tuple [Atom ''call'', Atom ''io'', Atom ''format'', PyList [PyStr ''hi''],
                    Pid (Atom ''erl@host'') 5]])
     = Inl TypeError"
  by (simp add: parse_gen_call_def parse_gen_message_def index0_def unpack3_def unpack2_def
                unpack5_def GenIncomingMessage_init_def GenIncomingCall_init_def)

subsection \<open>Normalised arguments\<close>

text \<open>
  C7. \<^verbatim>\<open>get_args\<close> on a call descriptor returns the stored arguments themselves when
  they are a native list, and the element list of the compound term otherwise; a list
  \<^verbatim>\<open>xs\<close> and a compound term wrapping \<^verbatim>\<open>xs\<close> give the same sequence.
\<close>

theorem get_args_uniform:
  "get_args \<lparr>node_name' = nn, sender' = s, ref' = r,
             mod' = m, fun' = f, args' = PyList xs, group_leader' = g\<rparr>
     = Inr (PyList xs)
   \<and> get_args \<lparr>node_name' = nn, sender' = s, ref' = r,
               mod' = m, fun' = f, args' = TermList xs, group_leader' = g\<rparr>
     = Inr (PyList xs)"
  by (simp add: get_args_def)

subsection \<open>Replies\<close>

text \<open>
  C5. With the descriptor's node registered and a pid for the sender, \<^verbatim>\<open>reply_exit\<close>
  hands that node exactly one request, a directive and not a delivery: its receiving
  node is the text of the sender's own node, not the descriptor's node name, and its
  payload is the 5-tuple of the marker \<^verbatim>\<open>'monitor_p_exit'\<close>, the local pid, the sender,
  the ref as stored and the reason. Nothing else in the registry changes.
\<close>

theorem reply_exit_one_directive:
  assumes "nodes (node_name' ctx) = Some log" and "sender' ctx = Pid (Atom rn) k"
  shows "reply_exit ctx lp reason nodes
           = (Inr (), nodes(node_name' ctx \<mapsto>
                 log @ [DistCommand rn
                          (Tuple [PyStr ''monitor_p_exit'', lp, sender' ctx, ref' ctx,
                                  reason])]))"
  using assms by (simp add: reply_exit_def lookup_node_def)

theorem reply_exit_one_directive_witness:
  "reply_exit
     \<lparr>node_name' = ''py@here'', sender' = Pid (Atom ''erl@there'') 3, ref' = Reference 7\<rparr>
     (Pid (Atom ''py@here'') 1) (Atom ''badarg'') [''py@here'' \<mapsto> []]
   = (Inr (), [''py@here'' \<mapsto>
        [DistCommand ''erl@there''
           (Tuple [PyStr ''monitor_p_exit'', Pid (Atom ''py@here'') 1,
                   Pid (Atom ''erl@there'') 3, Reference 7, Atom ''badarg''])]])"
  using reply_exit_one_directive
    [where nodes = "[''py@here'' \<mapsto> []]"
       and ctx = "\<lparr>node_name' = ''py@here'', sender' = Pid (Atom ''erl@there'') 3,
                   ref' = Reference 7\<rparr>"
       and log = "[]" and rn = "''erl@there''" and k = 3
       and lp = "Pid (Atom ''py@here'') 1" and reason = "Atom ''badarg''"]
  by simp

text \<open>
  C6. With the descriptor's node registered, \<^verbatim>\<open>reply\<close> hands that node exactly one
  delivery request: from the local pid, to the descriptor's sender, with the message
  \<^verbatim>\<open>(ref, result)\<close>; the descriptor is only read. After \<^verbatim>\<open>parse_gen_message\<close> on
  \<^verbatim>\<open>('$gen_call', (S, R), body)\<close> the reply on the descriptor it returns is delivered to
  \<^verbatim>\<open>S\<close> and starts with \<^verbatim>\<open>R\<close>.
\<close>

theorem reply_one_delivery_roundtrip:
  assumes "nodes (node_name' ctx) = Some log"
  shows "reply ctx lp result nodes
           = (Inr (), nodes(node_name' ctx \<mapsto>
                              log @ [Send lp (sender' ctx) (Tuple [ref' ctx, result])]))
       \<and> (unpack2 sr = Inr (S, R) \<longrightarrow>
            (\<exists>d. parse_gen_message (Tuple [Atom ''$gen_call'', sr, body]) (node_name' ctx)
                    = Inr (Inr d)
                \<and> reply d lp result nodes
                    = (Inr (), nodes(node_name' ctx \<mapsto>
                                       log @ [Send lp S (Tuple [R, result])]))))"
proof (intro conjI impI)
  show "reply ctx lp result nodes
           = (Inr (), nodes(node_name' ctx \<mapsto>
                              log @ [Send lp (sender' ctx) (Tuple [ref' ctx, result])]))"
    using assms by (rule reply_registered)
next
  assume sr: "unpack2 sr = Inr (S, R)"
  let ?d = "\<lparr>node_name' = node_name' ctx, sender' = S, ref' = R, message' = body\<rparr>"
  have "parse_gen_message (Tuple [Atom ''$gen_call'', sr, body]) (node_name' ctx)
          = Inr (Inr ?d)"
    using sr by (rule parse_gen_message_accepts)
  moreover have "reply ?d lp result nodes
      = (Inr (), nodes(node_name' ctx \<mapsto> log @ [Send lp S (Tuple [R, result])]))"
    using reply_registered [of nodes ?d log lp result] assms by simp
  ultimately show
    "\<exists>d. parse_gen_message (Tuple [Atom ''$gen_call'', sr, body]) (node_name' ctx)
            = Inr (Inr d)
        \<and> reply d lp result nodes
            = (Inr (), nodes(node_name' ctx \<mapsto> log @ [Send lp S (Tuple [R, result])]))"
    by blast
qed

theorem reply_one_delivery_roundtrip_witness:
  "reply \<lparr>node_name' = ''py@here'', sender' = Pid (Atom ''erl@there'') 3, ref' = Reference 7\<rparr>
     (Pid (Atom ''py@here'') 1) (Atom ''ok'') [''py@here'' \<mapsto> []]
     = (Inr (), [''py@here'' \<mapsto>
          [Send (Pid (Atom ''py@here'') 1) (Pid (Atom ''erl@there'') 3)
                (Tuple [Reference 7, Atom ''ok''])]])
   \<and> (\<exists>d. parse_gen_message
             (Tuple [Atom ''$gen_call'', Tuple [Pid (Atom ''erl@there'') 3, Reference 7],
                     Atom ''ping'']) ''py@here''
           = Inr (Inr d)
         \<and> reply d (Pid (Atom ''py@here'') 1) (Atom ''ok'') [''py@here'' \<mapsto> []]
           = (Inr (), [''py@here'' \<mapsto>
                [Send (Pid (Atom ''py@here'') 1) (Pid (Atom ''erl@there'') 3)
                      (Tuple [Reference 7, Atom ''ok''])]]))"
proof -
  have pair: "unpack2 (Tuple [Pid (Atom ''erl@there'') 3, Reference 7])
                = Inr (Pid (Atom ''erl@there'') 3, Reference 7)"
    by (simp add: unpack2_def)
  show ?thesis
    using pair
      reply_one_delivery_roundtrip
        [where nodes = "[''py@here'' \<mapsto> []]"
           and ctx = "\<lparr>node_name' = ''py@here'', sender' = Pid (Atom ''erl@there'') 3,
                       ref' = Reference 7\<rparr>"
           and log = "[]" and lp = "Pid (Atom ''py@here'') 1" and result = "Atom ''ok''"
           and sr = "Tuple [Pid (Atom ''erl@there'') 3, Reference 7]"
           and S = "Pid (Atom ''erl@there'') 3" and R = "Reference 7"
           and body = "Atom ''ping''"]
    by simp
qed

end
